theory Spec2Isabelle
  imports Complex_Main "HOL-Library.Log_Nat"
begin

section \<open>Data model (frontend/src/types/index.ts)\<close>

text \<open>
  The TypeScript type \<open>number\<close> is an IEEE-754 binary64 value. A finite binary64 value is
  modelled by the rational number it denotes (type \<open>rat\<close>); comparisons of finite values
  are then the comparisons of \<open>rat\<close>. Fields that the program only ever fills with the
  result of \<open>parseInt\<close> or with whole-number literals (vehicles per hour, the two
  percentages, the three signal times, the duration) are modelled by \<open>int\<close>, on which
  binary64 addition and subtraction are exact as long as the values stay below \<open>2^53\<close>.
  \<open>peak_hour_factor\<close> comes from \<open>parseFloat\<close> and is a \<open>rat\<close>.
  \<open>NaN\<close> and the infinities are not modelled: the range inputs and the templates that
  fill the validated fields never produce them.
  The optional fields \<open>time\<close>, \<open>total_vehicles\<close> and \<open>waiting_vehicles\<close> of
  \<open>SimulationMetrics\<close> are never written by the code and are left out.
\<close>

record SimulationMetrics =
  average_speed_kmh :: rat
  total_queue_length :: rat
  average_wait_time_seconds :: rat
  throughput_vehicles_per_hour :: rat

record SimulationConfig =
  vehicles_per_hour :: int
  car_percentage :: int
  truck_percentage :: int
  peak_hour_factor :: rat
  signal_control :: string
  green_time :: int
  yellow_time :: int
  red_time :: int
  simulation_duration :: int

text \<open>
  \<open>SimulationTemplate\<close> has the fields of a configuration under the same names; record
  fields are global constants here, so the template's fields carry the prefix \<open>tpl_\<close>.
\<close>

record SimulationTemplate =
  tpl_name :: string
  tpl_description :: string
  tpl_vehicles_per_hour :: int
  tpl_car_percentage :: int
  tpl_truck_percentage :: int
  tpl_peak_hour_factor :: rat
  tpl_signal_control :: string
  tpl_green_time :: int
  tpl_yellow_time :: int
  tpl_red_time :: int

datatype Status = Idle | Running | Paused | Completed | Error

record SimulationStatus =
  simulation_id :: string
  status :: Status
  message :: string
  metrics :: "SimulationMetrics option"

text \<open>
  The road network is opaque to the session logic: only its presence is tested, and the
  numbers of segments and intersections are displayed.
\<close>

record RoadNetwork =
  network_id :: string
  num_segments :: nat
  num_intersections :: nat

section \<open>The store (SimulationContext: state, actions, reducer)\<close>

record SimulationState =
  currentSimulation :: "SimulationStatus option"
  roadNetwork :: "RoadNetwork option"
  simulationConfig :: "SimulationConfig option"
  templates :: "SimulationTemplate list"
  isLoading :: bool
  error :: "string option"

datatype SimulationAction =
    SET_LOADING bool
  | SET_ERROR "string option"
  | SET_ROAD_NETWORK RoadNetwork
  | SET_SIMULATION_CONFIG SimulationConfig
  | START_SIMULATION string
  | UPDATE_METRICS SimulationMetrics
  | STOP_SIMULATION
  | SET_TEMPLATES "SimulationTemplate list"
  | CLEAR_SIMULATION

definition initialState :: SimulationState where
  "initialState =
     \<lparr> currentSimulation = None, roadNetwork = None, simulationConfig = None,
       templates = [], isLoading = False, error = None \<rparr>"

fun simulationReducer :: "SimulationState \<Rightarrow> SimulationAction \<Rightarrow> SimulationState" where
  "simulationReducer state (SET_LOADING payload) = state\<lparr>isLoading := payload\<rparr>"
| "simulationReducer state (SET_ERROR payload) = state\<lparr>error := payload\<rparr>"
| "simulationReducer state (SET_ROAD_NETWORK payload) = state\<lparr>roadNetwork := Some payload\<rparr>"
| "simulationReducer state (SET_SIMULATION_CONFIG payload) =
     state\<lparr>simulationConfig := Some payload\<rparr>"
| "simulationReducer state (START_SIMULATION payload) =
     state\<lparr>currentSimulation :=
              Some \<lparr> simulation_id = payload, status = Running,
                     message = ''Simulation started successfully'', metrics = None \<rparr>,
           error := None\<rparr>"
| "simulationReducer state (UPDATE_METRICS payload) =
     state\<lparr>currentSimulation :=
              (case currentSimulation state of
                 Some cur \<Rightarrow> Some (cur\<lparr>metrics := Some payload\<rparr>)
               | None \<Rightarrow> None)\<rparr>"
| "simulationReducer state STOP_SIMULATION =
     state\<lparr>currentSimulation :=
              (case currentSimulation state of
                 Some cur \<Rightarrow> Some (cur\<lparr>status := Completed, message := ''Simulation completed''\<rparr>)
               | None \<Rightarrow> None)\<rparr>"
| "simulationReducer state (SET_TEMPLATES payload) = state\<lparr>templates := payload\<rparr>"
| "simulationReducer state CLEAR_SIMULATION =
     state\<lparr>currentSimulation := None, roadNetwork := None, simulationConfig := None\<rparr>"

text \<open>
  \<open>dispatch\<close> applies the reducer; a function of the provider that dispatches several
  actions applies them in the order written.
\<close>

definition dispatch :: "SimulationAction \<Rightarrow> SimulationState \<Rightarrow> SimulationState" where
  "dispatch action state = simulationReducer state action"

subsection \<open>Date.now() in a template string\<close>

definition digit_char :: "nat \<Rightarrow> char" where
  "digit_char d = char_of (48 + d)"

fun decimal :: "nat \<Rightarrow> string" where
  "decimal n = (if n < 10 then [digit_char n] else decimal (n div 10) @ [digit_char (n mod 10)])"

declare decimal.simps [simp del]

subsection \<open>Operations of the provider\<close>

text \<open>
  \<open>startSimulation\<close>: the body of the \<open>try\<close> only dispatches, which does not throw, so
  the \<open>catch\<close> branch (which would dispatch \<open>SET_ERROR\<close>) is never taken; \<open>finally\<close>
  dispatches \<open>SET_LOADING false\<close>. The parameter \<open>now\<close> is the value of \<open>Date.now()\<close>.
\<close>

definition startSimulation :: "nat \<Rightarrow> SimulationConfig \<Rightarrow> SimulationState \<Rightarrow> SimulationState" where
  "startSimulation now cfg state =
     (let s1 = dispatch (SET_LOADING True) state;
          s2 = dispatch (SET_ERROR None) s1;
          simulationId = ''sim_'' @ decimal now;
          s3 = dispatch (START_SIMULATION simulationId) s2;
          s4 = dispatch (SET_SIMULATION_CONFIG cfg) s3
      in dispatch (SET_LOADING False) s4)"

text \<open>
  \<open>stopSimulation\<close>: the awaited promise is resolved by a timer and never rejects, so
  again only the \<open>try\<close> body and \<open>finally\<close> run.
\<close>

definition stopSimulation :: "SimulationState \<Rightarrow> SimulationState" where
  "stopSimulation state =
     (let s1 = dispatch (SET_LOADING True) state;
          s2 = dispatch STOP_SIMULATION s1
      in dispatch (SET_LOADING False) s2)"

definition updateMetrics :: "SimulationMetrics \<Rightarrow> SimulationState \<Rightarrow> SimulationState" where
  "updateMetrics m state = dispatch (UPDATE_METRICS m) state"

definition setRoadNetwork :: "RoadNetwork \<Rightarrow> SimulationState \<Rightarrow> SimulationState" where
  "setRoadNetwork network state = dispatch (SET_ROAD_NETWORK network) state"

definition setSimulationConfig :: "SimulationConfig \<Rightarrow> SimulationState \<Rightarrow> SimulationState" where
  "setSimulationConfig cfg state = dispatch (SET_SIMULATION_CONFIG cfg) state"

text \<open>
  The literal \<open>1.2\<close> denotes the binary64 value \<open>5404319552844595 / 2^52\<close>; \<open>1.5\<close> and the
  whole numbers are exact.
\<close>

definition mockTemplates :: "SimulationTemplate list" where
  "mockTemplates =
     [ \<lparr> tpl_name = ''Urban Intersection'',
         tpl_description = ''Standard 4-way intersection with traffic lights'',
         tpl_vehicles_per_hour = 1500, tpl_car_percentage = 85, tpl_truck_percentage = 15,
         tpl_peak_hour_factor = 5404319552844595 / 4503599627370496, tpl_signal_control = ''fixed_time'',
         tpl_green_time = 30, tpl_yellow_time = 3, tpl_red_time = 30 \<rparr>,
       \<lparr> tpl_name = ''Highway Merge'',
         tpl_description = ''Highway on-ramp merge scenario'',
         tpl_vehicles_per_hour = 3000, tpl_car_percentage = 90, tpl_truck_percentage = 10,
         tpl_peak_hour_factor = 3 / 2, tpl_signal_control = ''actuated'',
         tpl_green_time = 45, tpl_yellow_time = 3, tpl_red_time = 20 \<rparr>,
       \<lparr> tpl_name = ''Roundabout'',
         tpl_description = ''Multi-lane roundabout intersection'',
         tpl_vehicles_per_hour = 800, tpl_car_percentage = 80, tpl_truck_percentage = 20,
         tpl_peak_hour_factor = 1, tpl_signal_control = ''adaptive'',
         tpl_green_time = 60, tpl_yellow_time = 3, tpl_red_time = 0 \<rparr> ]"

definition loadTemplates :: "SimulationState \<Rightarrow> SimulationState" where
  "loadTemplates state = dispatch (SET_TEMPLATES mockTemplates) state"

section \<open>Configuration validation (SimulationConfigComponent)\<close>

definition validateConfig :: "SimulationConfig \<Rightarrow> bool" where
  "validateConfig config \<longleftrightarrow>
     vehicles_per_hour config \<ge> 100 \<and>
     vehicles_per_hour config \<le> 5000 \<and>
     car_percentage config + truck_percentage config = 100 \<and>
     peak_hour_factor config \<ge> 1 \<and>
     peak_hour_factor config \<le> 2 \<and>
     green_time config > 0 \<and>
     yellow_time config > 0 \<and>
     red_time config \<ge> 0"

text \<open>
  The predicate of the specification, written from its sentence, over the named
  quantities of a configuration.
\<close>

definition spec_validation_predicate ::
  "int \<Rightarrow> int \<Rightarrow> int \<Rightarrow> rat \<Rightarrow> int \<Rightarrow> int \<Rightarrow> int \<Rightarrow> bool" where
  "spec_validation_predicate vehiclesPerHour carPercentage truckPercentage peakHourFactor
       greenTime yellowTime redTime \<longleftrightarrow>
     (100 \<le> vehiclesPerHour \<and> vehiclesPerHour \<le> 5000) \<and>
     carPercentage + truckPercentage = 100 \<and>
     (1 \<le> peakHourFactor \<and> peakHourFactor \<le> 2) \<and>
     greenTime > 0 \<and> yellowTime > 0 \<and> redTime \<ge> 0"

section \<open>Binary64 arithmetic of JavaScript numbers\<close>

text \<open>
  \<open>a + b\<close> and \<open>a * b\<close> on numbers are the exact sum and product rounded to the nearest
  binary64 value, ties to the value with an even significand. \<open>expo x\<close> is the binary
  exponent of a positive \<open>x\<close> (the integer \<open>e\<close> with \<open>2^e \<le> x < 2^(e+1)\<close>); the spacing of
  binary64 values around \<open>x\<close> is \<open>2^(e - 52)\<close>, and \<open>2^(-1074)\<close> below the smallest normal
  value \<open>2^(-1022)\<close>. Results of magnitude \<open>2^1024\<close> or more (which become \<open>Infinity\<close>)
  are outside this model; every operand of the program's arithmetic is at most 2000.
\<close>

definition expo :: "rat \<Rightarrow> int" where
  "expo x = (if 1 \<le> x then bitlen \<lfloor>x\<rfloor> - 1 else - bitlen (\<lceil>1 / x\<rceil> - 1))"

definition round_half_even :: "rat \<Rightarrow> int" where
  "round_half_even q =
     (let f = \<lfloor>q\<rfloor>; d = q - of_int f
      in if d < 1 / 2 then f else if 1 / 2 < d then f + 1 else if even f then f else f + 1)"

definition ulp :: "rat \<Rightarrow> rat" where
  "ulp x = 2 powi (max (expo x) (- 1022) - 52)"

definition binary64_pos :: "rat \<Rightarrow> rat" where
  "binary64_pos x = of_int (round_half_even (x / ulp x)) * ulp x"

definition binary64 :: "rat \<Rightarrow> rat" where
  "binary64 x = (if x = 0 then 0 else if 0 < x then binary64_pos x else - binary64_pos (- x))"

definition is_binary64 :: "rat \<Rightarrow> bool" where
  "is_binary64 x \<longleftrightarrow> binary64 x = x \<and> \<bar>x\<bar> < 2 ^ 1024"

definition js_add :: "rat \<Rightarrow> rat \<Rightarrow> rat" where
  "js_add a b = binary64 (a + b)"

definition js_mul :: "rat \<Rightarrow> rat \<Rightarrow> rat" where
  "js_mul a b = binary64 (a * b)"

section \<open>The history buffer (MetricsDashboard)\<close>

record DataPoint =
  time :: string
  average_speed :: rat
  queue_length :: rat
  throughput :: rat
  wait_time :: rat

text \<open>\<open>Array.prototype.slice(start)\<close> with one argument: a negative start counts from the end.\<close>

definition slice :: "int \<Rightarrow> 'a list \<Rightarrow> 'a list" where
  "slice start xs =
     (let len = int (length xs);
          k = (if start < 0 then max (len + start) 0 else min start len)
      in drop (nat k) xs)"

text \<open>The updater passed to \<open>setHistoricalData\<close>.\<close>

definition appendHistory :: "'a list \<Rightarrow> 'a \<Rightarrow> 'a list" where
  "appendHistory prev newDataPoint = (let newData = prev @ [newDataPoint] in slice (- 20) newData)"

section \<open>The application state\<close>

text \<open>
  One record holds the store, the state of the Simulation page (\<open>isRunning\<close>,
  \<open>currentMetrics\<close>), the global \<open>window.simulationInterval\<close> with the interval timers
  registered in the browser, the state of SimulationConfigComponent (\<open>config\<close>,
  \<open>selectedTemplate\<close>, \<open>showAdvanced\<close>) and the state of MetricsDashboard
  (\<open>historicalData\<close>, \<open>updateCount\<close>). Timer handles are the positive numbers handed
  out by \<open>setInterval\<close>; \<open>None\<close> stands for \<open>undefined\<close> and \<open>null\<close>.
\<close>

record App =
  store :: SimulationState
  isRunning :: bool
  currentMetrics :: SimulationMetrics
  simulationInterval :: "nat option"
  activeIntervals :: "nat list"
  nextIntervalId :: nat
  config :: SimulationConfig
  selectedTemplate :: string
  showAdvanced :: bool
  historicalData :: "DataPoint list"
  updateCount :: nat

definition initialApp :: App where
  "initialApp =
     \<lparr> store = initialState,
       isRunning = False,
       currentMetrics =
         \<lparr> average_speed_kmh = 50, total_queue_length = 0,
           average_wait_time_seconds = 0, throughput_vehicles_per_hour = 0 \<rparr>,
       simulationInterval = None,
       activeIntervals = [],
       nextIntervalId = 1,
       config =
         \<lparr> vehicles_per_hour = 1000, car_percentage = 80, truck_percentage = 20,
           peak_hour_factor = 1, signal_control = ''fixed_time'',
           green_time = 30, yellow_time = 3, red_time = 30, simulation_duration = 3600 \<rparr>,
       selectedTemplate = [],
       showAdvanced = False,
       historicalData = [],
       updateCount = 0 \<rparr>"

subsection \<open>Interval timers\<close>

definition setInterval :: "App \<Rightarrow> nat \<times> App" where
  "setInterval app =
     (nextIntervalId app,
      app\<lparr>activeIntervals := nextIntervalId app # activeIntervals app,
          nextIntervalId := nextIntervalId app + 1\<rparr>)"

definition clearInterval :: "nat \<Rightarrow> App \<Rightarrow> App" where
  "clearInterval h app = app\<lparr>activeIntervals := removeAll h (activeIntervals app)\<rparr>"

text \<open>The test \<open>if ((window as any).simulationInterval)\<close>: a handle is truthy unless it is 0.\<close>

definition truthy :: "nat option \<Rightarrow> bool" where
  "truthy h = (case h of None \<Rightarrow> False | Some n \<Rightarrow> n \<noteq> 0)"

definition clearSimulationInterval :: "App \<Rightarrow> App" where
  "clearSimulationInterval app =
     (case simulationInterval app of
        Some h \<Rightarrow>
          if truthy (Some h) then (clearInterval h app)\<lparr>simulationInterval := None\<rparr> else app
      | None \<Rightarrow> app)"

subsection \<open>The Simulation page\<close>

text \<open>
  \<open>handleStartSimulation\<close> of the page. The awaited \<open>startSimulation\<close> contains no
  await of its own and cannot throw, so the handler runs to its end.
\<close>

definition Simulation_handleStartSimulation :: "nat \<Rightarrow> SimulationConfig \<Rightarrow> App \<Rightarrow> App" where
  "Simulation_handleStartSimulation now cfg app =
     (let a1 = app\<lparr>isRunning := True\<rparr>;
          a2 = a1\<lparr>store := startSimulation now cfg (store a1)\<rparr>;
          (interval, a3) = setInterval a2
      in a3\<lparr>simulationInterval := Some interval\<rparr>)"

text \<open>
  The sample built by the interval callback; \<open>r1\<close> to \<open>r4\<close> are the values returned by
  the four calls of \<open>Math.random()\<close>, in the order of the object literal.
\<close>

definition newMetrics :: "rat \<Rightarrow> rat \<Rightarrow> rat \<Rightarrow> rat \<Rightarrow> SimulationMetrics" where
  "newMetrics r1 r2 r3 r4 =
     \<lparr> average_speed_kmh = js_add 40 (js_mul r1 30),
       total_queue_length = js_mul r2 20,
       average_wait_time_seconds = js_mul r3 60,
       throughput_vehicles_per_hour = js_add 800 (js_mul r4 1200) \<rparr>"

definition intervalCallback :: "rat \<Rightarrow> rat \<Rightarrow> rat \<Rightarrow> rat \<Rightarrow> App \<Rightarrow> App" where
  "intervalCallback r1 r2 r3 r4 app =
     (let m = newMetrics r1 r2 r3 r4;
          a1 = app\<lparr>currentMetrics := m\<rparr>
      in a1\<lparr>store := updateMetrics m (store a1)\<rparr>)"

text \<open>
  \<open>handleStopSimulation\<close>. The one-second wait inside \<open>stopSimulation\<close> is not modelled:
  the handler is taken as one step.
\<close>

definition handleStopSimulation :: "App \<Rightarrow> App" where
  "handleStopSimulation app =
     (let a1 = clearSimulationInterval app;
          a2 = a1\<lparr>store := stopSimulation (store a1)\<rparr>;
          a3 = a2\<lparr>isRunning := False\<rparr>;
          resetMetrics =
            \<lparr> average_speed_kmh = 0, total_queue_length = 0,
              average_wait_time_seconds = 0, throughput_vehicles_per_hour = 0 \<rparr>;
          a4 = a3\<lparr>currentMetrics := resetMetrics\<rparr>
      in a4\<lparr>store := updateMetrics resetMetrics (store a4)\<rparr>)"

definition handleReset :: "App \<Rightarrow> App" where
  "handleReset app =
     (let a1 = clearSimulationInterval app;
          a2 = a1\<lparr>isRunning := False\<rparr>;
          resetMetrics =
            \<lparr> average_speed_kmh = 50, total_queue_length = 0,
              average_wait_time_seconds = 0, throughput_vehicles_per_hour = 0 \<rparr>;
          a3 = a2\<lparr>currentMetrics := resetMetrics\<rparr>
      in a3\<lparr>store := updateMetrics resetMetrics (store a3)\<rparr>)"

subsection \<open>SimulationConfigComponent\<close>

text \<open>A field name together with a value of the field's type, as passed to \<open>handleInputChange\<close>.\<close>

datatype FieldValue =
    Vehicles_per_hour int
  | Car_percentage int
  | Truck_percentage int
  | Peak_hour_factor rat
  | Signal_control string
  | Green_time int
  | Yellow_time int
  | Red_time int
  | Simulation_duration int

text \<open>The updater \<open>prev => ({...prev, [field]: value})\<close> that \<open>handleInputChange\<close> passes to \<open>setConfig\<close>.\<close>

fun handleInputChange :: "FieldValue \<Rightarrow> SimulationConfig \<Rightarrow> SimulationConfig" where
  "handleInputChange (Vehicles_per_hour v) prev = prev\<lparr>vehicles_per_hour := v\<rparr>"
| "handleInputChange (Car_percentage v) prev = prev\<lparr>car_percentage := v\<rparr>"
| "handleInputChange (Truck_percentage v) prev = prev\<lparr>truck_percentage := v\<rparr>"
| "handleInputChange (Peak_hour_factor v) prev = prev\<lparr>peak_hour_factor := v\<rparr>"
| "handleInputChange (Signal_control v) prev = prev\<lparr>signal_control := v\<rparr>"
| "handleInputChange (Green_time v) prev = prev\<lparr>green_time := v\<rparr>"
| "handleInputChange (Yellow_time v) prev = prev\<lparr>yellow_time := v\<rparr>"
| "handleInputChange (Red_time v) prev = prev\<lparr>red_time := v\<rparr>"
| "handleInputChange (Simulation_duration v) prev = prev\<lparr>simulation_duration := v\<rparr>"

definition inputChange :: "FieldValue \<Rightarrow> App \<Rightarrow> App" where
  "inputChange fv app = app\<lparr>config := handleInputChange fv (config app)\<rparr>"

text \<open>
  The \<open>onChange\<close> handlers of the two vehicle-mix sliders; the argument is the result of
  \<open>parseInt(e.target.value)\<close>. The two queued updaters run in the order of the calls.
\<close>

definition car_percentage_onChange :: "int \<Rightarrow> App \<Rightarrow> App" where
  "car_percentage_onChange carPct app =
     inputChange (Truck_percentage (100 - carPct)) (inputChange (Car_percentage carPct) app)"

definition truck_percentage_onChange :: "int \<Rightarrow> App \<Rightarrow> App" where
  "truck_percentage_onChange truckPct app =
     inputChange (Car_percentage (100 - truckPct)) (inputChange (Truck_percentage truckPct) app)"

definition handleTemplateChange :: "string \<Rightarrow> App \<Rightarrow> App" where
  "handleTemplateChange templateKey app =
     (case find (\<lambda>t. tpl_name t = templateKey) (templates (store app)) of
        Some template \<Rightarrow>
          app\<lparr>config :=
                \<lparr> vehicles_per_hour = tpl_vehicles_per_hour template,
                  car_percentage = tpl_car_percentage template,
                  truck_percentage = tpl_truck_percentage template,
                  peak_hour_factor = tpl_peak_hour_factor template,
                  signal_control = tpl_signal_control template,
                  green_time = tpl_green_time template,
                  yellow_time = tpl_yellow_time template,
                  red_time = tpl_red_time template,
                  simulation_duration = 3600 \<rparr>,
              selectedTemplate := templateKey\<rparr>
      | None \<Rightarrow> app)"

text \<open>
  \<open>handleStartSimulation\<close> of the component: it stores the configuration and calls the
  page's handler (the prop \<open>onStartSimulation\<close>). The effect that copies
  \<open>state.simulationConfig\<close> back into \<open>config\<close> then writes the value \<open>config\<close> already has.
\<close>

definition SimulationConfigComponent_handleStartSimulation :: "nat \<Rightarrow> App \<Rightarrow> App" where
  "SimulationConfigComponent_handleStartSimulation now app =
     (let a1 = app\<lparr>store := setSimulationConfig (config app) (store app)\<rparr>
      in Simulation_handleStartSimulation now (config a1) a1)"

text \<open>
  The button at the bottom of the component. While \<open>isRunning\<close> it is the stop button;
  otherwise it is the start button, rendered with
  \<open>disabled={!validateConfig() || !state.roadNetwork}\<close>. A click on a disabled button
  does not call its \<open>onClick\<close> handler. The warning box above it is rendered exactly when
  \<open>validateConfig()\<close> is false.
\<close>

definition startButton_disabled :: "App \<Rightarrow> bool" where
  "startButton_disabled app \<longleftrightarrow> \<not> validateConfig (config app) \<or> roadNetwork (store app) = None"

definition validationWarning_shown :: "App \<Rightarrow> bool" where
  "validationWarning_shown app \<longleftrightarrow> \<not> validateConfig (config app)"

definition button_onClick :: "nat \<Rightarrow> App \<Rightarrow> App" where
  "button_onClick now app =
     (if isRunning app then handleStopSimulation app
      else if startButton_disabled app then app
      else SimulationConfigComponent_handleStartSimulation now app)"

subsection \<open>MetricsDashboard\<close>

text \<open>
  The callback of the dashboard's own one-second interval, which the effect registers
  only while \<open>isRealTime\<close> (the page's \<open>isRunning\<close>) holds; \<open>metrics\<close> is the page's
  \<open>currentMetrics\<close> and \<open>timestamp\<close> the string of the current time of day. When the
  two intervals fire relative to each other is not modelled: while running, either
  callback may come next.
\<close>

definition dashboardInterval :: "string \<Rightarrow> App \<Rightarrow> App" where
  "dashboardInterval timestamp app =
     (if isRunning app
      then
        (let a1 = app\<lparr>updateCount := updateCount app + 1\<rparr>;
             newDataPoint =
               \<lparr> time = timestamp,
                 average_speed = average_speed_kmh (currentMetrics a1),
                 queue_length = total_queue_length (currentMetrics a1),
                 throughput = throughput_vehicles_per_hour (currentMetrics a1),
                 wait_time = average_wait_time_seconds (currentMetrics a1) \<rparr>
         in a1\<lparr>historicalData := appendHistory (historicalData a1) newDataPoint\<rparr>)
      else app)"

subsection \<open>Events of the user interface and of the timers\<close>

datatype Event =
    RoadNetworkUploaded RoadNetwork
  | TemplatesLoaded
  | TemplateChange string
  | InputChange FieldValue
  | CarSlider int
  | TruckSlider int
  | ButtonClick nat
  | ResetClick
  | SamplerTick nat rat rat rat rat
  | DashboardTick string

fun step :: "App \<Rightarrow> Event \<Rightarrow> App" where
  "step app (RoadNetworkUploaded network) = app\<lparr>store := setRoadNetwork network (store app)\<rparr>"
| "step app TemplatesLoaded = app\<lparr>store := loadTemplates (store app)\<rparr>"
| "step app (TemplateChange templateKey) = handleTemplateChange templateKey app"
| "step app (InputChange fv) = inputChange fv app"
| "step app (CarSlider carPct) = car_percentage_onChange carPct app"
| "step app (TruckSlider truckPct) = truck_percentage_onChange truckPct app"
| "step app (ButtonClick now) = button_onClick now app"
| "step app ResetClick = handleReset app"
| "step app (SamplerTick h r1 r2 r3 r4) =
     (if h \<in> set (activeIntervals app) then intervalCallback r1 r2 r3 r4 app else app)"
| "step app (DashboardTick timestamp) = dashboardInterval timestamp app"

definition run :: "Event list \<Rightarrow> App \<Rightarrow> App" where
  "run events app = foldl step app events"

section \<open>Example states and traces\<close>

definition exampleNetwork :: RoadNetwork where
  "exampleNetwork = \<lparr> network_id = ''net_1'', num_segments = 4, num_intersections = 1 \<rparr>"

text \<open>A state with a road network whose vehicle mix sums to 105.\<close>

definition invalidMixApp :: App where
  "invalidMixApp =
     initialApp\<lparr>store := setRoadNetwork exampleNetwork initialState,
                config := (config initialApp)\<lparr>car_percentage := 85\<rparr>\<rparr>"

text \<open>Upload, load the templates and select the template "Urban Intersection".\<close>

definition urbanTrace :: "Event list" where
  "urbanTrace =
     [RoadNetworkUploaded exampleNetwork, TemplatesLoaded, TemplateChange ''Urban Intersection'']"

text \<open>Upload, start with the default configuration, and let the dashboard record one point.\<close>

definition resetTrace :: "Event list" where
  "resetTrace =
     [RoadNetworkUploaded exampleNetwork, ButtonClick 1700000000000, DashboardTick ''10:00:00'']"

text \<open>
  A value that \<open>Math.random()\<close> can return: \<open>1 - 2^(-52)\<close> is the largest value of a
  generator that returns multiples of \<open>2^(-52)\<close>, and the second largest of one that
  returns multiples of \<open>2^(-53)\<close>.
\<close>

definition highDraw :: rat where
  "highDraw = 1 - 1 / 2 ^ 52"

section \<open>Properties of the store\<close>

text \<open>
  Claim C5. \<open>validateConfig\<close> returns true exactly when the configuration satisfies
  100 \<le> vehiclesPerHour \<le> 5000, carPercentage + truckPercentage = 100,
  1.0 \<le> peakHourFactor \<le> 2.0, greenTime > 0, yellowTime > 0 and redTime \<ge> 0: the function
  of the code and the predicate of the specification agree on every configuration.
\<close>

theorem validateConfig_iff_spec:
  "validateConfig cfg =
     spec_validation_predicate (vehicles_per_hour cfg) (car_percentage cfg)
       (truck_percentage cfg) (peak_hour_factor cfg)
       (green_time cfg) (yellow_time cfg) (red_time cfg)"
  unfolding validateConfig_def spec_validation_predicate_def by blast

text \<open>
  Claim C6. \<open>stopSimulation\<close> is idempotent: on every store state, stopping twice gives
  exactly the state that stopping once gives, and so does a second \<open>STOP_SIMULATION\<close>
  action of the reducer; the page's \<open>handleStopSimulation\<close> is idempotent on every
  application state as well.
\<close>

theorem stopSimulation_idempotent:
  "stopSimulation (stopSimulation state) = stopSimulation state \<and>
   simulationReducer (simulationReducer state STOP_SIMULATION) STOP_SIMULATION =
     simulationReducer state STOP_SIMULATION \<and>
   handleStopSimulation (handleStopSimulation app) = handleStopSimulation app"
proof -
  have "handleStopSimulation (handleStopSimulation app) = handleStopSimulation app"
    by (cases "currentSimulation (store app)"; cases "simulationInterval app")
       (simp_all add: handleStopSimulation_def clearSimulationInterval_def clearInterval_def
        truthy_def stopSimulation_def updateMetrics_def dispatch_def Let_def)
  moreover have "stopSimulation (stopSimulation state) = stopSimulation state"
    by (cases "currentSimulation state") (simp_all add: stopSimulation_def dispatch_def)
  moreover have "simulationReducer (simulationReducer state STOP_SIMULATION) STOP_SIMULATION =
      simulationReducer state STOP_SIMULATION"
    by (cases "currentSimulation state") simp_all
  ultimately show ?thesis by simp
qed

text \<open>
  Claim C7. Stopping when no session is active is a benign no-op: when the store has no
  current session, the \<open>STOP_SIMULATION\<close> action returns the state as it is, and
  \<open>stopSimulation\<close> leaves the session absent, writes no error into the store (the
  \<open>error\<close> field keeps its value) and changes nothing but the loading flag, which it
  leaves cleared.
\<close>

theorem stopSimulation_no_session:
  "currentSimulation state = None \<Longrightarrow>
     simulationReducer state STOP_SIMULATION = state \<and>
     currentSimulation (stopSimulation state) = None \<and>
     error (stopSimulation state) = error state \<and>
     stopSimulation state = state\<lparr>isLoading := False\<rparr>"
  by (simp add: stopSimulation_def dispatch_def)

theorem stopSimulation_no_session_witness:
  "currentSimulation initialState = None \<and>
   simulationReducer initialState STOP_SIMULATION = initialState \<and>
   stopSimulation initialState = initialState \<and>
   error (stopSimulation initialState) = None"
  using stopSimulation_no_session [of initialState]
  by (simp add: initialState_def)

text \<open>
  Claim C9. For every store state and every configuration, \<open>startSimulation\<close> yields a
  state whose current session has status running and no metrics (a fresh session record
  replaces the previous one), and whose stored configuration is the given one.
\<close>

theorem startSimulation_fresh_session:
  "\<exists>cur. currentSimulation (startSimulation now cfg state) = Some cur \<and>
         status cur = Running \<and> metrics cur = None \<and>
         simulation_id cur = ''sim_'' @ decimal now \<and>
         simulationConfig (startSimulation now cfg state) = Some cfg"
  by (simp add: startSimulation_def dispatch_def)

section \<open>Cancelling the sampler\<close>

lemma clearSimulationInterval_fields [simp]:
  "store (clearSimulationInterval app) = store app"
  "isRunning (clearSimulationInterval app) = isRunning app"
  "currentMetrics (clearSimulationInterval app) = currentMetrics app"
  "config (clearSimulationInterval app) = config app"
  "historicalData (clearSimulationInterval app) = historicalData app"
  "updateCount (clearSimulationInterval app) = updateCount app"
  "truthy (simulationInterval (clearSimulationInterval app)) = False"
  by (simp_all add: clearSimulationInterval_def clearInterval_def truthy_def
      split: option.splits)

lemma clearSimulationInterval_idem:
  "clearSimulationInterval (clearSimulationInterval app) = clearSimulationInterval app"
  by (simp add: clearSimulationInterval_def clearInterval_def truthy_def split: option.splits)

section \<open>Properties of the history buffer\<close>

lemma slice_last_20: "slice (- 20) xs = drop (length xs - 20) xs"
  by (auto simp: slice_def Let_def max_def nat_diff_distrib
      intro!: arg_cong[where f="\<lambda>k. drop k xs"])

lemma appendHistory_drop:
  "appendHistory prev p = drop (Suc (length prev) - 20) (prev @ [p])"
  by (simp add: appendHistory_def slice_last_20)

lemma foldl_appendHistory: "foldl appendHistory [] ps = drop (length ps - 20) ps"
proof (induction ps rule: rev_induct)
  case Nil
  then show ?case by simp
next
  case (snoc p ps)
  show ?case
  proof (cases "length ps \<le> 20")
    case True
    then show ?thesis using snoc by (simp add: appendHistory_drop)
  next
    case False
    then have "Suc (length ps - 20) = length ps - 19" by arith
    then show ?thesis using snoc False by (simp add: appendHistory_drop)
  qed
qed

lemma step_history_le:
  "length (historicalData app) \<le> 20 \<Longrightarrow> length (historicalData (step app e)) \<le> 20"
  by (cases e)
     (auto simp: handleTemplateChange_def inputChange_def car_percentage_onChange_def
      truck_percentage_onChange_def button_onClick_def handleStopSimulation_def
      SimulationConfigComponent_handleStartSimulation_def Simulation_handleStartSimulation_def
      setInterval_def handleReset_def
      intervalCallback_def dashboardInterval_def appendHistory_drop Let_def
      split: option.splits)

lemma run_history_le:
  "length (historicalData app) \<le> 20 \<Longrightarrow> length (historicalData (run events app)) \<le> 20"
  unfolding run_def
  by (induction events arbitrary: app) (simp_all add: step_history_le)

text \<open>
  Claim C2. The history buffer never holds more than 20 entries: one append leaves at
  most 20 entries and only drops entries from the head of the extended list; after any
  sequence \<open>ps\<close> of appends to the empty buffer the buffer is \<open>ps\<close> without its first
  \<open>length ps - 20\<close> entries, that is the last 20 in insertion order; in particular 25
  appends leave the last 20 (the first 5 are dropped). In the application, whatever
  events occur from the initial state, \<open>historicalData\<close> has at most 20 entries.
\<close>

theorem historyBuffer_last_20:
  "length (appendHistory prev p) \<le> 20 \<and>
   appendHistory prev p = drop (Suc (length prev) - 20) (prev @ [p]) \<and>
   foldl appendHistory [] ps = drop (length ps - 20) ps \<and>
   length (foldl appendHistory [] ps) \<le> 20 \<and>
   (length ps = 25 \<longrightarrow> foldl appendHistory [] ps = drop 5 ps) \<and>
   length (historicalData (run events initialApp)) \<le> 20"
proof -
  have "length (historicalData (run events initialApp)) \<le> 20"
    by (rule run_history_le) (simp add: initialApp_def)
  then show ?thesis
    by (auto simp: foldl_appendHistory appendHistory_drop)
qed

theorem historyBuffer_last_20_witness:
  "length [1..<26] = 25 \<and> foldl appendHistory [] [1..<26] = [6..<26]"
  using historyBuffer_last_20 [of "[]" 0 "[1..<26]" "[]"] by auto

section \<open>Properties of the controller\<close>

lemma start_store:
  "store (Simulation_handleStartSimulation now cfg app) = startSimulation now cfg (store app)"
  by (simp add: Simulation_handleStartSimulation_def setInterval_def Let_def)

lemma stop_store:
  "store (handleStopSimulation app) =
     updateMetrics \<lparr> average_speed_kmh = 0, total_queue_length = 0,
              average_wait_time_seconds = 0, throughput_vehicles_per_hour = 0 \<rparr>
       (stopSimulation (store app))"
  by (simp add: handleStopSimulation_def Let_def)

lemma reset_fields:
  "store (handleReset app) =
     updateMetrics \<lparr> average_speed_kmh = 50, total_queue_length = 0,
              average_wait_time_seconds = 0, throughput_vehicles_per_hour = 0 \<rparr> (store app)"
  "historicalData (handleReset app) = historicalData app"
  "isRunning (handleReset app) = False"
  "currentMetrics (handleReset app) =
     \<lparr> average_speed_kmh = 50, total_queue_length = 0,
       average_wait_time_seconds = 0, throughput_vehicles_per_hour = 0 \<rparr>"
  "truthy (simulationInterval (handleReset app)) = False"
  by (simp_all add: handleReset_def Let_def)

lemma urban_config:
  "config (run urbanTrace initialApp) =
     \<lparr> vehicles_per_hour = 1500, car_percentage = 85, truck_percentage = 15,
       peak_hour_factor = 5404319552844595 / 4503599627370496, signal_control = ''fixed_time'',
       green_time = 30, yellow_time = 3, red_time = 30, simulation_duration = 3600 \<rparr>"
  by (simp add: run_def urbanTrace_def handleTemplateChange_def loadTemplates_def
      mockTemplates_def dispatch_def setRoadNetwork_def initialApp_def)

lemma resetTrace_state:
  "run resetTrace initialApp =
     \<lparr> store =
         \<lparr> currentSimulation =
             Some \<lparr> simulation_id = ''sim_'' @ decimal 1700000000000, status = Running,
                    message = ''Simulation started successfully'', metrics = None \<rparr>,
           roadNetwork = Some exampleNetwork,
           simulationConfig = Some (config initialApp),
           templates = [], isLoading = False, error = None \<rparr>,
       isRunning = True,
       currentMetrics = currentMetrics initialApp,
       simulationInterval = Some 1,
       activeIntervals = [1],
       nextIntervalId = 2,
       config = config initialApp,
       selectedTemplate = [],
       showAdvanced = False,
       historicalData =
         [\<lparr> time = ''10:00:00'', average_speed = 50, queue_length = 0,
            throughput = 0, wait_time = 0 \<rparr>],
       updateCount = 1 \<rparr>"
  by (simp add: run_def resetTrace_def initialApp_def initialState_def
      setRoadNetwork_def dispatch_def button_onClick_def startButton_disabled_def
      validateConfig_def SimulationConfigComponent_handleStartSimulation_def
      setSimulationConfig_def Simulation_handleStartSimulation_def setInterval_def
      startSimulation_def dashboardInterval_def appendHistory_def slice_def Let_def)

text \<open>
  Claim C1. With a configuration that fails validation (for instance a vehicle mix that
  does not sum to 100), a click on the start button changes nothing: the button is
  disabled, neither handler runs, the store is not called, and the warning is shown.
  Whatever the state, a click never leaves a session with status running unless the
  click changed nothing at all.
\<close>

theorem invalid_config_never_starts:
  "\<not> validateConfig (config app) \<Longrightarrow>
     (\<not> isRunning app \<longrightarrow> button_onClick now app = app) \<and>
     (map_option status (currentSimulation (store (button_onClick now app))) = Some Running
        \<longrightarrow> button_onClick now app = app) \<and>
     validationWarning_shown app"
  by (cases "currentSimulation (store app)")
     (auto simp: button_onClick_def startButton_disabled_def validationWarning_shown_def
      handleStopSimulation_def
      stopSimulation_def updateMetrics_def dispatch_def Let_def)

theorem invalid_config_never_starts_witness:
  "car_percentage (config invalidMixApp) + truck_percentage (config invalidMixApp) = 105 \<and>
   \<not> validateConfig (config invalidMixApp) \<and>
   \<not> isRunning invalidMixApp \<and>
   roadNetwork (store invalidMixApp) = Some exampleNetwork \<and>
   button_onClick 1700000000000 invalidMixApp = invalidMixApp \<and>
   currentSimulation (store (button_onClick 1700000000000 invalidMixApp)) = None"
  using invalid_config_never_starts [of invalidMixApp 1700000000000]
  by (simp add: invalidMixApp_def initialApp_def initialState_def validateConfig_def
      setRoadNetwork_def dispatch_def)

text \<open>
  Claim C3. For every valid configuration, starting and then immediately stopping
  leaves the session completed with the all-zero sample as its latest metrics; the
  page shows the all-zero sample and is no longer running. The same holds when both
  steps are clicks on the button of a state that holds the configuration and a road
  network: the first click starts (status running), the second stops.
\<close>

theorem start_then_stop_completed:
  "validateConfig cfg \<Longrightarrow>
     currentSimulation
         (store (handleStopSimulation (Simulation_handleStartSimulation now cfg app))) =
       Some \<lparr> simulation_id = ''sim_'' @ decimal now, status = Completed,
              message = ''Simulation completed'',
              metrics = Some \<lparr> average_speed_kmh = 0, total_queue_length = 0,
                average_wait_time_seconds = 0, throughput_vehicles_per_hour = 0 \<rparr> \<rparr> \<and>
     currentMetrics (handleStopSimulation (Simulation_handleStartSimulation now cfg app)) =
       \<lparr> average_speed_kmh = 0, total_queue_length = 0,
         average_wait_time_seconds = 0, throughput_vehicles_per_hour = 0 \<rparr> \<and>
     \<not> isRunning (handleStopSimulation (Simulation_handleStartSimulation now cfg app)) \<and>
     (config app = cfg \<and> \<not> isRunning app \<and> roadNetwork (store app) \<noteq> None \<longrightarrow>
        map_option status (currentSimulation (store (button_onClick now app))) = Some Running \<and>
        map_option status
            (currentSimulation (store (run [ButtonClick now, ButtonClick now'] app))) =
          Some Completed \<and>
        Option.bind (currentSimulation (store (run [ButtonClick now, ButtonClick now'] app)))
            metrics =
          Some \<lparr> average_speed_kmh = 0, total_queue_length = 0,
                 average_wait_time_seconds = 0, throughput_vehicles_per_hour = 0 \<rparr>)"
  apply (intro conjI impI)
  subgoal
    by (simp add: stop_store start_store startSimulation_def stopSimulation_def
        updateMetrics_def dispatch_def)
  subgoal by (simp add: handleStopSimulation_def Let_def)
  subgoal by (simp add: handleStopSimulation_def Let_def)
  subgoal
    by (auto simp: button_onClick_def startButton_disabled_def
        SimulationConfigComponent_handleStartSimulation_def start_store startSimulation_def
        setSimulationConfig_def dispatch_def)
  subgoal
    by (auto simp: run_def button_onClick_def startButton_disabled_def
        SimulationConfigComponent_handleStartSimulation_def stop_store start_store
        startSimulation_def stopSimulation_def updateMetrics_def setSimulationConfig_def
        dispatch_def Simulation_handleStartSimulation_def setInterval_def Let_def)
  subgoal
    by (auto simp: run_def button_onClick_def startButton_disabled_def
        SimulationConfigComponent_handleStartSimulation_def stop_store start_store
        startSimulation_def stopSimulation_def updateMetrics_def setSimulationConfig_def
        dispatch_def Simulation_handleStartSimulation_def setInterval_def Let_def)
  done

theorem start_then_stop_completed_witness:
  "validateConfig (config (run urbanTrace initialApp)) \<and>
   \<not> isRunning (run urbanTrace initialApp) \<and>
   roadNetwork (store (run urbanTrace initialApp)) \<noteq> None \<and>
   map_option status
     (currentSimulation
        (store (run [ButtonClick 1700000000000, ButtonClick 1700000005000]
                  (run urbanTrace initialApp)))) = Some Completed \<and>
   Option.bind
     (currentSimulation
        (store (run [ButtonClick 1700000000000, ButtonClick 1700000005000]
                  (run urbanTrace initialApp)))) metrics =
     Some \<lparr> average_speed_kmh = 0, total_queue_length = 0,
            average_wait_time_seconds = 0, throughput_vehicles_per_hour = 0 \<rparr>"
proof -
  have v: "validateConfig (config (run urbanTrace initialApp))"
    by (simp add: urban_config validateConfig_def)
  have r: "\<not> isRunning (run urbanTrace initialApp)"
    by (simp add: run_def urbanTrace_def handleTemplateChange_def loadTemplates_def
        mockTemplates_def dispatch_def setRoadNetwork_def initialApp_def)
  have n: "roadNetwork (store (run urbanTrace initialApp)) \<noteq> None"
    by (simp add: run_def urbanTrace_def handleTemplateChange_def loadTemplates_def
        mockTemplates_def dispatch_def setRoadNetwork_def initialApp_def)
  show ?thesis
    using start_then_stop_completed [of "config (run urbanTrace initialApp)" 1700000000000
        "run urbanTrace initialApp" 1700000005000] v r n
    by simp
qed

text \<open>
  Claim C4, as the code has it. For every state with a running session, \<open>handleReset\<close>
  clears the page's running flag and the timer handle, sets the displayed metrics and
  the session's latest metrics to the default sample (speed 50, the rest 0), and leaves
  the session record otherwise as it was: its status stays running (it becomes neither
  idle nor completed). The history buffer is left as it was.
\<close>

theorem reset_keeps_session_and_history:
  "currentSimulation (store app) = Some cur \<Longrightarrow> status cur = Running \<Longrightarrow>
     \<not> isRunning (handleReset app) \<and>
     \<not> truthy (simulationInterval (handleReset app)) \<and>
     currentMetrics (handleReset app) =
       \<lparr> average_speed_kmh = 50, total_queue_length = 0,
         average_wait_time_seconds = 0, throughput_vehicles_per_hour = 0 \<rparr> \<and>
     currentSimulation (store (handleReset app)) =
       Some (cur\<lparr>metrics := Some \<lparr> average_speed_kmh = 50, total_queue_length = 0,
         average_wait_time_seconds = 0, throughput_vehicles_per_hour = 0 \<rparr>\<rparr>) \<and>
     map_option status (currentSimulation (store (handleReset app))) = Some Running \<and>
     historicalData (handleReset app) = historicalData app"
  by (simp add: reset_fields updateMetrics_def dispatch_def)

theorem reset_keeps_session_and_history_witness:
  "map_option status (currentSimulation (store (run resetTrace initialApp))) = Some Running \<and>
   \<not> isRunning (handleReset (run resetTrace initialApp)) \<and>
   map_option status (currentSimulation (store (handleReset (run resetTrace initialApp)))) =
     Some Running \<and>
   Option.bind (currentSimulation (store (handleReset (run resetTrace initialApp)))) metrics =
     Some \<lparr> average_speed_kmh = 50, total_queue_length = 0,
            average_wait_time_seconds = 0, throughput_vehicles_per_hour = 0 \<rparr> \<and>
   length (historicalData (handleReset (run resetTrace initialApp))) = 1"
  using reset_keeps_session_and_history [of "run resetTrace initialApp"
      "\<lparr> simulation_id = ''sim_'' @ decimal 1700000000000, status = Running,
         message = ''Simulation started successfully'', metrics = None \<rparr>"]
  by (simp add: resetTrace_state)

text \<open>
  Claim C4 as stated fails: after upload, start and one recorded data point the session
  is running; after reset its status is not idle and the history buffer is not empty.
\<close>

theorem reset_not_idle_history_kept:
  "map_option status (currentSimulation (store (run resetTrace initialApp))) = Some Running \<and>
   map_option status (currentSimulation (store (handleReset (run resetTrace initialApp)))) \<noteq>
     Some Idle \<and>
   historicalData (handleReset (run resetTrace initialApp)) \<noteq> []"
  by (simp add: resetTrace_state reset_fields updateMetrics_def dispatch_def)

text \<open>
  Claim C10. Editing either vehicle-mix slider keeps the mix at 100: for a new value
  \<open>v\<close> in [0,100] the car slider sets the car percentage to \<open>v\<close> and the truck
  percentage to \<open>100 - v\<close>, and the truck slider does the same with the roles exchanged.
\<close>

theorem slider_keeps_mix_100:
  "0 \<le> v \<Longrightarrow> v \<le> 100 \<Longrightarrow>
     car_percentage (config (car_percentage_onChange v app)) = v \<and>
     truck_percentage (config (car_percentage_onChange v app)) = 100 - v \<and>
     car_percentage (config (car_percentage_onChange v app)) +
       truck_percentage (config (car_percentage_onChange v app)) = 100 \<and>
     truck_percentage (config (truck_percentage_onChange v app)) = v \<and>
     car_percentage (config (truck_percentage_onChange v app)) = 100 - v \<and>
     car_percentage (config (truck_percentage_onChange v app)) +
       truck_percentage (config (truck_percentage_onChange v app)) = 100"
  by (simp add: car_percentage_onChange_def truck_percentage_onChange_def inputChange_def)

theorem slider_keeps_mix_100_witness:
  "(0::int) \<le> 35 \<and> (35::int) \<le> 100 \<and>
   car_percentage (config (car_percentage_onChange 35 initialApp)) = 35 \<and>
   truck_percentage (config (car_percentage_onChange 35 initialApp)) = 65 \<and>
   truck_percentage (config (truck_percentage_onChange 35 initialApp)) = 35 \<and>
   car_percentage (config (truck_percentage_onChange 35 initialApp)) = 65"
  using slider_keeps_mix_100 [of 35 initialApp] by simp

section \<open>Properties of binary64 rounding\<close>

lemma two_powi_nat: "0 \<le> k \<Longrightarrow> (2::rat) powi k = of_int (2 ^ nat k)"
  by (simp add: power_int_def)

lemma expo_bounds:
  assumes "0 < x"
  shows "2 powi (expo x) \<le> x \<and> x < 2 powi (expo x + 1)"
proof (cases "1 \<le> x")
  case True
  define n where "n = \<lfloor>x\<rfloor>"
  have n: "0 < n" using True by (simp add: n_def)
  have b: "2 ^ nat (bitlen n - 1) \<le> n" "n < 2 ^ nat (bitlen n)"
    using bitlen_bounds [OF n] by simp_all
  have k: "1 \<le> bitlen n" using n by (simp add: bitlen_alt_def)
  have e: "expo x = bitlen n - 1" using True by (simp add: expo_def n_def)
  have "(2::rat) powi (expo x) = of_int (2 ^ nat (bitlen n - 1))"
    using k by (simp add: e two_powi_nat)
  also have "\<dots> \<le> of_int n" using b(1) by (simp only: of_int_le_iff)
  also have "\<dots> \<le> x" by (simp add: n_def)
  finally have lo: "2 powi (expo x) \<le> x" .
  have "n + 1 \<le> 2 ^ nat (bitlen n)" using b(2) by simp
  then have "(of_int (n + 1) :: rat) \<le> of_int (2 ^ nat (bitlen n))"
    by (simp only: of_int_le_iff)
  moreover have "x < of_int (n + 1)" using floor_correct [of x] by (simp add: n_def)
  moreover have "(2::rat) powi (expo x + 1) = of_int (2 ^ nat (bitlen n))"
    using k by (simp add: e two_powi_nat)
  ultimately have "x < 2 powi (expo x + 1)" by simp
  with lo show ?thesis by simp
next
  case False
  define y where "y = 1 / x"
  have y: "1 < y" using assms False by (simp add: y_def)
  define m where "m = \<lceil>y\<rceil> - 1"
  have m: "0 < m" using y by (simp add: m_def less_ceiling_iff)
  have b: "2 ^ nat (bitlen m - 1) \<le> m" "m < 2 ^ nat (bitlen m)"
    using bitlen_bounds [OF m] by simp_all
  have k: "1 \<le> bitlen m" using m by (simp add: bitlen_alt_def)
  have e: "expo x = - bitlen m" using False by (simp add: expo_def m_def y_def)
  have ym: "of_int m < y" "y \<le> of_int m + 1"
    using ceiling_correct [of y] by (simp_all add: m_def)
  have "m + 1 \<le> 2 ^ nat (bitlen m)" using b(2) by simp
  then have "(of_int (m + 1) :: rat) \<le> of_int (2 ^ nat (bitlen m))"
    by (simp only: of_int_le_iff)
  then have yu: "y \<le> 2 ^ nat (bitlen m)" using ym(2) by simp
  have "(of_int (2 ^ nat (bitlen m - 1)) :: rat) \<le> of_int m"
    using b(1) by (simp only: of_int_le_iff)
  then have "(2::rat) ^ nat (bitlen m - 1) \<le> of_int m" by simp
  then have yl: "2 ^ nat (bitlen m - 1) < y" using ym(1) by linarith
  have p1: "(2::rat) powi (expo x) = 1 / 2 ^ nat (bitlen m)"
    using k by (simp add: e power_int_def field_simps)
  have p2: "(2::rat) powi (expo x + 1) = 1 / 2 ^ nat (bitlen m - 1)"
    using k by (simp add: e power_int_def field_simps nat_diff_distrib)
  have xy: "1 / y = x" using assms by (simp add: y_def)
  have "1 / 2 ^ nat (bitlen m) \<le> 1 / y"
    using yu y by (intro divide_left_mono) simp_all
  moreover have "1 / y < 1 / 2 ^ nat (bitlen m - 1)"
    using yl y by (intro divide_strict_left_mono mult_pos_pos) simp_all
  ultimately show ?thesis unfolding p1 p2 xy by simp
qed

lemma expo_unique:
  assumes "0 < x" "2 powi e \<le> x" "x < 2 powi (e + 1)"
  shows "expo x = e"
proof -
  have b: "2 powi (expo x) \<le> x" "x < 2 powi (expo x + 1)"
    using expo_bounds [OF assms(1)] by simp_all
  have "(2::rat) powi e < 2 powi (expo x + 1)" using assms(2) b(2) by linarith
  then have 1: "e < expo x + 1"
    using power_int_increasing [of "expo x + 1" e "2::rat"] by (cases "e < expo x + 1") auto
  have "(2::rat) powi (expo x) < 2 powi (e + 1)" using assms(3) b(1) by linarith
  then have 2: "expo x < e + 1"
    using power_int_increasing [of "e + 1" "expo x" "2::rat"] by (cases "expo x < e + 1") auto
  from 1 2 show ?thesis by simp
qed

lemma expo_less:
  assumes "0 < x" "x < 2 powi k"
  shows "expo x < k"
proof -
  have "(2::rat) powi (expo x) < 2 powi k" using expo_bounds [OF assms(1)] assms(2) by linarith
  then show ?thesis
    using power_int_increasing [of k "expo x" "2::rat"] by (cases "expo x < k") auto
qed

lemma round_half_even_le:
  assumes "q \<le> of_int k"
  shows "round_half_even q \<le> k"
proof -
  have f: "\<lfloor>q\<rfloor> \<le> k" using assms by (simp add: floor_le_iff) 
  show ?thesis
  proof (cases "q = of_int \<lfloor>q\<rfloor>")
    case True
    then have "q - of_int \<lfloor>q\<rfloor> = 0" by simp
    then show ?thesis using f by (simp add: round_half_even_def Let_def)
  next
    case False
    then have "of_int \<lfloor>q\<rfloor> < q" using floor_correct [of q] by linarith
    then have "of_int \<lfloor>q\<rfloor> < (of_int k :: rat)" using assms by linarith
    then have "\<lfloor>q\<rfloor> < k" by (simp only: of_int_less_iff)
    then show ?thesis by (simp add: round_half_even_def Let_def)
  qed
qed

lemma round_half_even_ge:
  assumes "of_int k \<le> q"
  shows "k \<le> round_half_even q"
proof -
  have "k \<le> \<lfloor>q\<rfloor>" using assms by (simp add: le_floor_iff)
  then show ?thesis by (simp add: round_half_even_def Let_def)
qed

lemma round_half_even_below_half:
  assumes "q < of_int k + 1 / 2"
  shows "round_half_even q \<le> k"
proof (cases "\<lfloor>q\<rfloor> < k")
  case True
  then show ?thesis by (simp add: round_half_even_def Let_def)
next
  case False
  have "q < of_int (k + 1)" using assms by simp
  then have "\<lfloor>q\<rfloor> < k + 1" by (simp only: floor_less_iff)
  with False have fk: "\<lfloor>q\<rfloor> = k" by simp
  then have "q - of_int \<lfloor>q\<rfloor> < 1 / 2" using assms by simp
  then show ?thesis using fk by (simp add: round_half_even_def Let_def)
qed

lemma grid_split:
  assumes "E \<le> j"
  shows "of_int m * (2::rat) powi j = of_int (m * 2 ^ nat (j - E)) * 2 powi E"
proof -
  have "(2::rat) powi j = 2 powi (j - E) * 2 powi E"
    by (simp flip: power_int_add)
  also have "(2::rat) powi (j - E) = of_int (2 ^ nat (j - E))"
    using assms by (simp add: two_powi_nat)
  finally show ?thesis by simp
qed

lemma ulp_le_grid:
  assumes "0 < x" "x < 2 powi (j + 53)" "- 1074 \<le> j"
  shows "max (expo x) (- 1022) - 52 \<le> j"
  using expo_less [OF assms(1,2)] assms(3) by simp

lemma binary64_pos_le_grid:
  assumes "0 < x" "x \<le> of_int m * 2 powi j" "x < 2 powi (j + 53)" "- 1074 \<le> j"
  shows "binary64_pos x \<le> of_int m * 2 powi j"
proof -
  define E where "E = max (expo x) (- 1022) - 52"
  have Ej: "E \<le> j" unfolding E_def using assms(1,3,4) by (rule ulp_le_grid)
  have u: "ulp x = 2 powi E" by (simp add: ulp_def E_def)
  have pos: "(0::rat) < 2 powi E" by simp
  have c: "of_int m * (2::rat) powi j = of_int (m * 2 ^ nat (j - E)) * 2 powi E"
    using Ej by (rule grid_split)
  have "x / 2 powi E \<le> of_int (m * 2 ^ nat (j - E))"
    using assms(2) pos unfolding c by (simp add: pos_divide_le_eq)
  then have "round_half_even (x / 2 powi E) \<le> m * 2 ^ nat (j - E)"
    by (rule round_half_even_le)
  then have "(of_int (round_half_even (x / 2 powi E)) :: rat) \<le> of_int (m * 2 ^ nat (j - E))"
    by (simp only: of_int_le_iff)
  then have "of_int (round_half_even (x / 2 powi E)) * 2 powi E
               \<le> of_int (m * 2 ^ nat (j - E)) * (2::rat) powi E"
    using pos by (simp only: mult_le_cancel_right_pos)
  then show ?thesis unfolding binary64_pos_def u c .
qed

lemma binary64_pos_ge_grid:
  assumes "0 < x" "of_int m * 2 powi j \<le> x" "x < 2 powi (j + 53)" "- 1074 \<le> j"
  shows "of_int m * 2 powi j \<le> binary64_pos x"
proof -
  define E where "E = max (expo x) (- 1022) - 52"
  have Ej: "E \<le> j" unfolding E_def using assms(1,3,4) by (rule ulp_le_grid)
  have u: "ulp x = 2 powi E" by (simp add: ulp_def E_def)
  have pos: "(0::rat) < 2 powi E" by simp
  have c: "of_int m * (2::rat) powi j = of_int (m * 2 ^ nat (j - E)) * 2 powi E"
    using Ej by (rule grid_split)
  have "of_int (m * 2 ^ nat (j - E)) \<le> x / 2 powi E"
    using assms(2) pos unfolding c by (simp add: pos_le_divide_eq)
  then have "m * 2 ^ nat (j - E) \<le> round_half_even (x / 2 powi E)"
    by (rule round_half_even_ge)
  then have "(of_int (m * 2 ^ nat (j - E)) :: rat) \<le> of_int (round_half_even (x / 2 powi E))"
    by (simp only: of_int_le_iff)
  then have "of_int (m * 2 ^ nat (j - E)) * (2::rat) powi E
               \<le> of_int (round_half_even (x / 2 powi E)) * 2 powi E"
    using pos by (simp only: mult_le_cancel_right_pos)
  then show ?thesis unfolding binary64_pos_def u c .
qed

lemma binary64_pos_in_binade:
  assumes "2 powi e \<le> x" "x < 2 powi (e + 1)" "- 1022 \<le> e"
  shows "binary64_pos x = of_int (round_half_even (x / 2 powi (e - 52))) * 2 powi (e - 52)"
proof -
  have "(0::rat) < 2 powi e" by simp
  then have "0 < x" using assms(1) by linarith
  then have "expo x = e" using assms(1,2) by (rule expo_unique)
  then show ?thesis using assms(3) by (simp add: binary64_pos_def ulp_def)
qed

lemma binary64_of_pos: "0 < x \<Longrightarrow> binary64 x = binary64_pos x"
  by (simp add: binary64_def)

lemma binary64_nonneg:
  assumes "0 \<le> x"
  shows "0 \<le> binary64 x"
proof (cases "x = 0")
  case True
  then show ?thesis by (simp add: binary64_def)
next
  case False
  then have x: "0 < x" using assms by simp
  have "0 \<le> x / ulp x" using x by (simp add: ulp_def)
  then have "0 \<le> round_half_even (x / ulp x)"
    using round_half_even_ge [of 0 "x / ulp x"] by simp
  then have "0 \<le> binary64_pos x" by (simp add: binary64_pos_def ulp_def)
  then show ?thesis using x by (simp add: binary64_def)
qed

lemma is_binary64_draw:
  assumes "binary64 x = x" "0 \<le> x" "x < 1"
  shows "is_binary64 x"
proof -
  have "(1::rat) < 2 ^ 1024" by (rule one_less_power) simp_all
  then have "\<bar>x\<bar> < 2 ^ 1024" using assms(2,3) by linarith
  then show ?thesis using assms(1) by (simp add: is_binary64_def)
qed

lemma binary64_below_one:
  assumes "is_binary64 r" "0 \<le> r" "r < 1"
  shows "r \<le> 1 - 1 / 2 ^ 53"
proof (cases "r < 1 / 2")
  case True
  then show ?thesis by simp
next
  case False
  then have lo: "2 powi (- 1) \<le> r" by simp
  have hi: "r < 2 powi (- 1 + 1)" using assms(3) by simp
  define n where "n = round_half_even (r / 2 powi (- 1 - 52))"
  have "binary64_pos r = of_int n * 2 powi (- 1 - 52)"
    unfolding n_def using lo hi by (rule binary64_pos_in_binade) simp
  moreover have "binary64 r = binary64_pos r" using False by (simp add: binary64_def)
  moreover have "binary64 r = r" using assms(1) by (simp add: is_binary64_def)
  ultimately have r: "r = of_int n / 2 ^ 53" by simp
  then have "(of_int n :: rat) < of_int (2 ^ 53)" using assms(3) by simp
  then have "n < 2 ^ 53" by (simp only: of_int_less_iff)
  then have "n \<le> 2 ^ 53 - 1" by simp
  then have "(of_int n :: rat) \<le> of_int (2 ^ 53 - 1)" by (simp only: of_int_le_iff)
  then show ?thesis unfolding r by (simp add: field_simps)
qed

lemma binary64_pos_product_below:
  assumes "0 < x" "x \<le> c * (1 - 1 / 2 ^ 53)" "c = of_int m * 2 powi (e - 52)"
    "2 ^ 52 < m" "m < 2 ^ 53" "- 1022 \<le> e"
  shows "binary64_pos x \<le> of_int (m - 1) * 2 powi (e - 52)"
proof -
  define u :: rat where "u = 2 powi (e - 52)"
  have u: "0 < u" by (simp add: u_def)
  have pe: "(2::rat) powi e = 2 ^ 52 * u"
    unfolding u_def using power_int_add [of "2::rat" 52 "e - 52"] by simp
  have pe1: "(2::rat) powi (e + 1) = 2 ^ 53 * u"
    unfolding u_def using power_int_add [of "2::rat" 53 "e - 52"] by (simp add: add.commute)
  have m1: "(2::rat) ^ 52 \<le> of_int (m - 1)"
  proof -
    have "2 ^ 52 \<le> m - 1" using assms(4) by simp
    then have "(of_int (2 ^ 52) :: rat) \<le> of_int (m - 1)" by (simp only: of_int_le_iff)
    then show ?thesis by simp
  qed
  have m2: "(of_int m :: rat) < 2 ^ 53"
  proof -
    have "(of_int m :: rat) < of_int (2 ^ 53)" using assms(5) by (simp only: of_int_less_iff)
    then show ?thesis by simp
  qed
  have m3: "(2::rat) ^ 52 < of_int m" using m1 by simp
  have cu: "c = of_int m * u" by (simp add: assms(3) u_def)
  have xc: "x < c"
  proof -
    have "0 < c" using m3 u by (simp add: cu)
    then have "c * (1 - 1 / 2 ^ 53) < c" by (simp add: field_simps)
    then show ?thesis using assms(2) by linarith
  qed
  have xhi: "x < 2 powi (e + 1)"
  proof -
    have "c < 2 ^ 53 * u" using m2 u by (simp add: cu)
    then show ?thesis using xc unfolding pe1 by linarith
  qed
  show ?thesis
  proof (cases "x < 2 powi e")
    case True
    have "2 ^ 52 * u \<le> of_int (m - 1) * u" using m1 u by (simp only: mult_le_cancel_right_pos)
    then have "x \<le> of_int (m - 1) * 2 powi (e - 52)"
      using True unfolding pe u_def by linarith
    moreover have "x < 2 powi (e - 52 + 53)" using xhi by (simp add: add.commute)
    moreover have "- 1074 \<le> e - 52" using assms(6) by simp
    ultimately show ?thesis using assms(1) by (intro binary64_pos_le_grid)
  next
    case False
    then have lo: "2 powi e \<le> x" by simp
    have b: "binary64_pos x = of_int (round_half_even (x / u)) * u"
      unfolding u_def using lo xhi assms(6) by (rule binary64_pos_in_binade)
    have "x / u \<le> of_int m * (1 - 1 / 2 ^ 53)"
      using assms(2) u unfolding cu by (simp add: pos_divide_le_eq mult.assoc mult.commute mult.left_commute)
    also have "\<dots> = of_int m - of_int m / 2 ^ 53" by (simp add: field_simps)
    also have "\<dots> < of_int m - 1 / 2" using m3 by (simp add: field_simps)
    finally have "x / u < of_int (m - 1) + 1 / 2" by simp
    then have "round_half_even (x / u) \<le> m - 1" by (rule round_half_even_below_half)
    then have "(of_int (round_half_even (x / u)) :: rat) \<le> of_int (m - 1)"
      by (simp only: of_int_le_iff)
    then have "of_int (round_half_even (x / u)) * u \<le> of_int (m - 1) * u"
      using u by (simp only: mult_le_cancel_right_pos)
    then show ?thesis unfolding b u_def .
  qed
qed

lemma js_mul_below:
  assumes "is_binary64 r" "0 \<le> r" "r < 1" "c = of_int m * 2 powi (e - 52)"
    "2 ^ 52 < m" "m < 2 ^ 53" "- 1022 \<le> e"
  shows "0 \<le> js_mul r c \<and> js_mul r c \<le> of_int (m - 1) * 2 powi (e - 52)"
proof (cases "r = 0")
  case True
  have "(0::rat) \<le> of_int (m - 1)" using assms(5) by simp
  then show ?thesis using True by (simp add: js_mul_def binary64_def)
next
  case False
  have m: "(0::rat) < of_int m" using assms(5) by simp
  then have c: "0 < c" by (simp add: assms(4))
  have r: "0 < r" using False assms(2) by simp
  then have x: "0 < r * c" using c by simp
  have "r \<le> 1 - 1 / 2 ^ 53" using assms(1-3) by (rule binary64_below_one)
  then have "r * c \<le> (1 - 1 / 2 ^ 53) * c" using c by (simp only: mult_le_cancel_right_pos)
  then have "r * c \<le> c * (1 - 1 / 2 ^ 53)" by (simp only: mult.commute)
  then have "binary64_pos (r * c) \<le> of_int (m - 1) * 2 powi (e - 52)"
    using x assms(4-7) by (intro binary64_pos_product_below)
  moreover have "binary64 (r * c) = binary64_pos (r * c)" using x by (rule binary64_of_pos)
  moreover have "0 \<le> binary64 (r * c)" using x by (intro binary64_nonneg) simp
  ultimately show ?thesis by (simp add: js_mul_def)
qed

lemma js_add_between:
  assumes "0 \<le> y" "of_int a + y \<le> of_int m * 2 powi j" "0 < a"
    "of_int a + y < 2 powi (j + 53)" "- 1074 \<le> j" "j \<le> 0"
  shows "of_int a \<le> js_add (of_int a) y \<and> js_add (of_int a) y \<le> of_int m * 2 powi j"
proof -
  have a: "(0::rat) < of_int a" using assms(3) by simp
  then have x: "0 < of_int a + y" using assms(1) by linarith
  have b: "binary64 (of_int a + y) = binary64_pos (of_int a + y)" using x by (rule binary64_of_pos)
  have g: "of_int (a * 2 ^ nat (0 - j)) * 2 powi j = (of_int a :: rat)"
    using grid_split [of j 0 a] assms(6) by simp
  have le: "of_int (a * 2 ^ nat (0 - j)) * 2 powi j \<le> of_int a + y"
    unfolding g using assms(1) by simp
  have "of_int (a * 2 ^ nat (0 - j)) * 2 powi j \<le> binary64_pos (of_int a + y)"
    using x le assms(4,5) by (rule binary64_pos_ge_grid)
  then have lo: "of_int a \<le> binary64_pos (of_int a + y)" unfolding g .
  have hi: "binary64_pos (of_int a + y) \<le> of_int m * 2 powi j"
    using x assms(2,4,5) by (rule binary64_pos_le_grid)
  show ?thesis unfolding js_add_def b using lo hi by (rule conjI)
qed

section \<open>Properties of the metrics sampler\<close>

text \<open>
  Claim C8, as the code has it. For all binary64 draws in [0,1) the sample satisfies
  40 \<le> speed \<le> 70, 0 \<le> queue < 20, 0 \<le> wait < 60 and 800 \<le> throughput < 2000. The
  upper bound of the speed is not strict: the sum \<open>40 + r * 30\<close> is rounded in a range
  where binary64 values are \<open>2^(-46)\<close> apart, four times the spacing of the product.
\<close>

theorem sample_within_ranges:
  assumes "is_binary64 r1" "0 \<le> r1" "r1 < 1"
    and "is_binary64 r2" "0 \<le> r2" "r2 < 1"
    and "is_binary64 r3" "0 \<le> r3" "r3 < 1"
    and "is_binary64 r4" "0 \<le> r4" "r4 < 1"
  shows "40 \<le> average_speed_kmh (newMetrics r1 r2 r3 r4) \<and>
         average_speed_kmh (newMetrics r1 r2 r3 r4) \<le> 70 \<and>
         0 \<le> total_queue_length (newMetrics r1 r2 r3 r4) \<and>
         total_queue_length (newMetrics r1 r2 r3 r4) < 20 \<and>
         0 \<le> average_wait_time_seconds (newMetrics r1 r2 r3 r4) \<and>
         average_wait_time_seconds (newMetrics r1 r2 r3 r4) < 60 \<and>
         800 \<le> throughput_vehicles_per_hour (newMetrics r1 r2 r3 r4) \<and>
         throughput_vehicles_per_hour (newMetrics r1 r2 r3 r4) < 2000"
proof -
  have s1: "0 \<le> js_mul r1 30 \<and> js_mul r1 30 \<le> of_int (8444249301319680 - 1) * 2 powi (4 - 52)"
    using assms(1-3) by (rule js_mul_below) simp_all
  have q: "0 \<le> js_mul r2 20 \<and> js_mul r2 20 \<le> of_int (5629499534213120 - 1) * 2 powi (4 - 52)"
    using assms(4-6) by (rule js_mul_below) simp_all
  have w: "0 \<le> js_mul r3 60 \<and> js_mul r3 60 \<le> of_int (8444249301319680 - 1) * 2 powi (5 - 52)"
    using assms(7-9) by (rule js_mul_below) simp_all
  have t1: "0 \<le> js_mul r4 1200 \<and> js_mul r4 1200 \<le> of_int (5277655813324800 - 1) * 2 powi (10 - 52)"
    using assms(10-12) by (rule js_mul_below) simp_all
  have s2: "of_int 40 \<le> js_add (of_int 40) (js_mul r1 30) \<and>
            js_add (of_int 40) (js_mul r1 30) \<le> of_int 70 * 2 powi 0"
    using s1 by (intro js_add_between) simp_all
  have t2: "of_int 800 \<le> js_add (of_int 800) (js_mul r4 1200) \<and>
            js_add (of_int 800) (js_mul r4 1200) \<le> of_int (8796093022208000 - 1) * 2 powi (- 42)"
    using t1 by (intro js_add_between) simp_all
  show ?thesis
    using s2 q w t2 by (simp add: newMetrics_def)
qed

theorem sample_within_ranges_witness:
  "is_binary64 highDraw \<and> 0 \<le> highDraw \<and> highDraw < 1 \<and>
   is_binary64 (1 / 2) \<and> is_binary64 (1 / 4) \<and> is_binary64 (3 / 4) \<and>
   40 \<le> average_speed_kmh (newMetrics highDraw (1 / 2) (1 / 4) (3 / 4)) \<and>
   average_speed_kmh (newMetrics highDraw (1 / 2) (1 / 4) (3 / 4)) \<le> 70 \<and>
   total_queue_length (newMetrics highDraw (1 / 2) (1 / 4) (3 / 4)) < 20 \<and>
   average_wait_time_seconds (newMetrics highDraw (1 / 2) (1 / 4) (3 / 4)) < 60 \<and>
   800 \<le> throughput_vehicles_per_hour (newMetrics highDraw (1 / 2) (1 / 4) (3 / 4)) \<and>
   throughput_vehicles_per_hour (newMetrics highDraw (1 / 2) (1 / 4) (3 / 4)) < 2000"
proof -
  have d1: "is_binary64 highDraw"
    by (rule is_binary64_draw) (code_simp, simp_all add: highDraw_def)
  have d2: "is_binary64 (1 / 2)" by (rule is_binary64_draw) (code_simp, simp_all)
  have d3: "is_binary64 (1 / 4)" by (rule is_binary64_draw) (code_simp, simp_all)
  have d4: "is_binary64 (3 / 4)" by (rule is_binary64_draw) (code_simp, simp_all)
  have r1: "0 \<le> highDraw" "highDraw < 1" by (simp_all add: highDraw_def)
  show ?thesis
    using sample_within_ranges [OF d1 r1 d2 _ _ d3 _ _ d4] d1 d2 d3 d4 r1 by simp
qed

text \<open>
  Claim C8 as stated fails for the speed: with the draw \<open>1 - 2^(-52)\<close>, a binary64 value
  in [0,1), the product \<open>r * 30\<close> is rounded to \<open>30 - 2^(-47)\<close> and the sum
  \<open>40 + (30 - 2^(-47))\<close>, which lies halfway between two binary64 values, is rounded to
  70 exactly.
\<close>

theorem sample_speed_reaches_70:
  "is_binary64 highDraw \<and> 0 \<le> highDraw \<and> highDraw < 1 \<and>
   js_mul highDraw 30 = 30 - 1 / 2 ^ 47 \<and>
   average_speed_kmh (newMetrics highDraw 0 0 0) = 70 \<and>
   \<not> average_speed_kmh (newMetrics highDraw 0 0 0) < 70"
proof -
  have d: "is_binary64 highDraw"
    by (rule is_binary64_draw) (code_simp, simp_all add: highDraw_def)
  have r: "0 \<le> highDraw" "highDraw < 1" by (simp_all add: highDraw_def)
  have p: "js_mul highDraw 30 = 30 - 1 / 2 ^ 47" by code_simp
  have s: "js_add 40 (30 - 1 / 2 ^ 47) = 70" by code_simp
  have "average_speed_kmh (newMetrics highDraw 0 0 0) = 70"
    unfolding newMetrics_def by (simp only: SimulationMetrics.simps p s)
  then show ?thesis using d r p by simp
qed

end
